theory Spec2Isabelle
  imports Main "HOL-Library.AList"
begin

section \<open>JSON values and JavaScript truthiness\<close>

text \<open>
  Request bodies, stored documents and response envelopes are JSON. A JSON object is an
  association list of its members; a member that is not there reads as \<open>undefined\<close>.
  JSON numbers are modelled by integers: the handlers only ever test a number against
  zero.
\<close>

datatype jsval =
    JUndefined
  | JNull
  | JBool bool
  | JNum int
  | JStr string
  | JArr "jsval list"
  | JObj "(string \<times> jsval) list"

type_synonym fields = "(string \<times> jsval) list"

text \<open>\<open>!v\<close> in JavaScript: true exactly for undefined, null, false, 0 and the empty string.\<close>

fun falsy :: "jsval \<Rightarrow> bool" where
  "falsy JUndefined = True"
| "falsy JNull = True"
| "falsy (JBool b) = (\<not> b)"
| "falsy (JNum n) = (n = 0)"
| "falsy (JStr s) = (s = [])"
| "falsy (JArr xs) = False"
| "falsy (JObj ms) = False"

text \<open>Member access \<open>obj.key\<close> on an object.\<close>

definition get_prop :: "fields \<Rightarrow> string \<Rightarrow> jsval" where
  "get_prop obj k = (case map_of obj k of None \<Rightarrow> JUndefined | Some v \<Rightarrow> v)"

text \<open>
  What a lookup by identity resolves to in the driver: the document, or \<open>null\<close> when
  there is none.
\<close>

definition document_or_null :: "fields option \<Rightarrow> jsval" where
  "document_or_null d = (case d of None \<Rightarrow> JNull | Some fs \<Rightarrow> JObj fs)"

text \<open>
  The spec's wording of the title rule, to compare with the test the handler makes:
  the title is absent (the body has no such member) or empty (the empty string).
\<close>

definition title_absent_or_empty :: "fields \<Rightarrow> bool" where
  "title_absent_or_empty body \<longleftrightarrow>
     get_prop body ''title'' = JUndefined \<or> get_prop body ''title'' = JStr []"

section \<open>Errors, responses and the collaborators of the router\<close>

text \<open>
  A thrown error carries a message (\<open>error.message\<close>); the two kinds that the model
  and the database layer throw are the validation and the storage error.
\<close>

datatype error = ValidationError (message: string) | StorageError (message: string)

text \<open>\<open>res.status(n).json(obj)\<close>; \<open>res.json(obj)\<close> alone answers with status 200.\<close>

record response =
  status :: nat
  json :: fields

text \<open>The result objects of the driver, of which the handlers read one member each.\<close>

record insert_result =
  insertedId :: string

record update_result =
  matchedCount :: nat

record delete_result =
  deletedCount :: nat

text \<open>
  The router requires \<open>../data/database\<close> (\<open>db\<close>) and \<open>../models/Book\<close> (\<open>Book\<close>).
  Their operations are asynchronous and work on the external store: each takes the state
  of the store and yields the new state together with either the thrown error or the
  value it resolves to. The handlers are written against any such pair of modules.
\<close>

record 'st backend =
  checkConnection :: "'st \<Rightarrow> (error + unit) \<times> 'st"
  findAll :: "'st \<Rightarrow> (error + jsval list) \<times> 'st"
  findById :: "string \<Rightarrow> 'st \<Rightarrow> (error + jsval) \<times> 'st"
  create :: "fields \<Rightarrow> 'st \<Rightarrow> (error + insert_result) \<times> 'st"
  update :: "string \<Rightarrow> fields \<Rightarrow> 'st \<Rightarrow> (error + update_result) \<times> 'st"
  delete :: "string \<Rightarrow> 'st \<Rightarrow> (error + delete_result) \<times> 'st"

text \<open>
  Every call a request makes on \<open>db\<close> or \<open>Book\<close> is recorded, in order, with the
  error it threw (if it threw).
\<close>

datatype call =
    CheckConnection
  | FindAll
  | FindById string
  | Create fields
  | Update string fields
  | Delete string

type_synonym trace = "(call \<times> error option) list"

section \<open>The handlers of the books router\<close>

text \<open>The \<open>catch\<close> block shared by four of the five handlers.\<close>

definition error_500 :: "error \<Rightarrow> response" where
  "error_500 e =
     \<lparr>status = 500, json = [(''success'', JBool False), (''message'', JStr (message e))]\<rparr>"

definition not_found_404 :: response where
  "not_found_404 =
     \<lparr>status = 404, json = [(''success'', JBool False), (''message'', JStr ''Book not found'')]\<rparr>"

text \<open>\<open>router.get('/')\<close>\<close>

definition get_books :: "'st backend \<Rightarrow> 'st \<Rightarrow> response \<times> 'st \<times> trace" where
  "get_books M s =
     (case findAll M s of
        (Inl e, s') \<Rightarrow>
          (\<lparr>status = 500,
            json = [(''success'', JBool False), (''message'', JStr (message e)),
                    (''details'', JStr ''Failed to fetch books'')]\<rparr>,
           s', [(FindAll, Some e)])
      | (Inr books, s') \<Rightarrow>
          (\<lparr>status = 200,
            json = [(''success'', JBool True), (''count'', JNum (int (length books))),
                    (''data'', JArr books)]\<rparr>,
           s', [(FindAll, None)]))"

text \<open>\<open>router.get('/:id')\<close>\<close>

definition get_book :: "'st backend \<Rightarrow> string \<Rightarrow> 'st \<Rightarrow> response \<times> 'st \<times> trace" where
  "get_book M i s =
     (case findById M i s of
        (Inl e, s') \<Rightarrow> (error_500 e, s', [(FindById i, Some e)])
      | (Inr book, s') \<Rightarrow>
          (if falsy book then (not_found_404, s', [(FindById i, None)])
           else (\<lparr>status = 200, json = [(''success'', JBool True), (''data'', book)]\<rparr>,
                 s', [(FindById i, None)])))"

text \<open>\<open>router.post('/')\<close>\<close>

definition post_book :: "'st backend \<Rightarrow> fields \<Rightarrow> 'st \<Rightarrow> response \<times> 'st \<times> trace" where
  "post_book M body s =
     (if falsy (get_prop body ''title'') then
        (\<lparr>status = 400,
          json = [(''success'', JBool False), (''message'', JStr ''Book title is required'')]\<rparr>,
         s, [])
      else
        (case create M body s of
           (Inl e, s1) \<Rightarrow> (error_500 e, s1, [(Create body, Some e)])
         | (Inr result, s1) \<Rightarrow>
             (case findById M (insertedId result) s1 of
                (Inl e, s2) \<Rightarrow>
                  (error_500 e, s2,
                   [(Create body, None), (FindById (insertedId result), Some e)])
              | (Inr newBook, s2) \<Rightarrow>
                  (\<lparr>status = 201,
                    json = [(''success'', JBool True), (''data'', newBook),
                            (''message'', JStr ''Book created successfully'')]\<rparr>,
                   s2,
                   [(Create body, None), (FindById (insertedId result), None)]))))"

text \<open>\<open>router.put('/:id')\<close>\<close>

definition put_book :: "'st backend \<Rightarrow> string \<Rightarrow> fields \<Rightarrow> 'st \<Rightarrow> response \<times> 'st \<times> trace" where
  "put_book M i body s =
     (case update M i body s of
        (Inl e, s1) \<Rightarrow> (error_500 e, s1, [(Update i body, Some e)])
      | (Inr result, s1) \<Rightarrow>
          (if matchedCount result = 0 then (not_found_404, s1, [(Update i body, None)])
           else
             (case findById M i s1 of
                (Inl e, s2) \<Rightarrow>
                  (error_500 e, s2, [(Update i body, None), (FindById i, Some e)])
              | (Inr updatedBook, s2) \<Rightarrow>
                  (\<lparr>status = 200,
                    json = [(''success'', JBool True), (''data'', updatedBook),
                            (''message'', JStr ''Book updated successfully'')]\<rparr>,
                   s2,
                   [(Update i body, None), (FindById i, None)]))))"

text \<open>\<open>router.delete('/:id')\<close>\<close>

definition delete_book :: "'st backend \<Rightarrow> string \<Rightarrow> 'st \<Rightarrow> response \<times> 'st \<times> trace" where
  "delete_book M i s =
     (case delete M i s of
        (Inl e, s') \<Rightarrow> (error_500 e, s', [(Delete i, Some e)])
      | (Inr result, s') \<Rightarrow>
          (if deletedCount result = 0 then (not_found_404, s', [(Delete i, None)])
           else
             (\<lparr>status = 200,
               json = [(''success'', JBool True),
                       (''message'', JStr ''Book deleted successfully'')]\<rparr>,
              s', [(Delete i, None)])))"

section \<open>Routing: the connectivity middleware in front of the five routes\<close>

text \<open>
  The five routes of the router: the HTTP method and path, with \<open>req.params.id\<close> and
  \<open>req.body\<close> where the handler reads them. The body is the JSON object that the
  body parser of \<open>server.js\<close> delivers.
\<close>

datatype operation =
    ListBooks
  | GetBook string
  | CreateBook fields
  | UpdateBook string fields
  | DeleteBook string

definition handler :: "'st backend \<Rightarrow> operation \<Rightarrow> 'st \<Rightarrow> response \<times> 'st \<times> trace" where
  "handler M opn s =
     (case opn of
        ListBooks \<Rightarrow> get_books M s
      | GetBook i \<Rightarrow> get_book M i s
      | CreateBook body \<Rightarrow> post_book M body s
      | UpdateBook i body \<Rightarrow> put_book M i body s
      | DeleteBook i \<Rightarrow> delete_book M i s)"

text \<open>
  The second \<open>router.use\<close>: await \<open>db.checkConnection()\<close>, then \<open>next()\<close>; a
  thrown error is answered here and the route is never entered.
\<close>

definition books_routes :: "'st backend \<Rightarrow> operation \<Rightarrow> 'st \<Rightarrow> response \<times> 'st \<times> trace" where
  "books_routes M opn s =
     (case checkConnection M s of
        (Inl e, s') \<Rightarrow>
          (\<lparr>status = 500,
            json = [(''success'', JBool False), (''message'', JStr ''Database connection failed''),
                    (''error'', JStr (message e))]\<rparr>,
           s', [(CheckConnection, Some e)])
      | (Inr u, s') \<Rightarrow>
          (case handler M opn s' of
             (r, s'', tr) \<Rightarrow> (r, s'', (CheckConnection, None) # tr)))"

section \<open>The Book model and the database layer\<close>

text \<open>
  Modelled from the spec: the identities that the persistence layer assigns
  (\<open>data/database\<close> and its driver are not among the sources). The spec calls them
  opaque and unique, so they stay a parameter: \<open>issue k\<close> is the k-th identity the
  layer hands out, \<open>wellformed\<close> tells which identifiers the store accepts in a query.
\<close>

record id_supply =
  issue :: "nat \<Rightarrow> string"
  wellformed :: "string \<Rightarrow> bool"

text \<open>
  Modelled from the spec: the external collection (not among the sources). The stored
  records in insertion order, each under its identity; how many identities were handed
  out so far; and whether the store is unreachable at the moment (with the message its
  operations then fail with).
\<close>

record store =
  books :: "(string \<times> fields) list"
  issued :: nat
  fault :: "string option"

text \<open>
  Modelled from the spec: a Book record as the model returns it (\<open>models/Book\<close> is not
  among the sources): the identity as \<open>_id\<close>, then the fields as they were supplied.
\<close>

definition book_fields :: "string \<times> fields \<Rightarrow> fields" where
  "book_fields b = (''_id'', JStr (fst b)) # snd b"

text \<open>
  Modelled from the spec: \<open>db.checkConnection()\<close>, the health probe of the persistence
  gateway (\<open>data/database\<close> is not among the sources); it fails fast when the store
  is unreachable.
\<close>

definition db_checkConnection :: "store \<Rightarrow> (error + unit) \<times> store" where
  "db_checkConnection s =
     (case fault s of Some m \<Rightarrow> (Inl (StorageError m), s) | None \<Rightarrow> (Inr (), s))"

text \<open>
  Modelled from the spec: \<open>Book.findAll()\<close> (\<open>models/Book\<close> is not among the sources):
  the ordered-by-insertion sequence of all Book records currently stored, the empty
  sequence if none exist; a StorageError on connectivity or query failure.
\<close>

definition Book_findAll :: "store \<Rightarrow> (error + jsval list) \<times> store" where
  "Book_findAll s =
     (case fault s of
        Some m \<Rightarrow> (Inl (StorageError m), s)
      | None \<Rightarrow> (Inr (map (\<lambda>b. JObj (book_fields b)) (books s)), s))"

text \<open>
  Modelled from the spec: \<open>Book.findById(id)\<close> (\<open>models/Book\<close> is not among the
  sources): the Book with matching identity, or the explicit not-found signal
  (\<open>null\<close>, not an error) if none matches; a StorageError if the identifier is malformed
  for the backing store or the query fails.
\<close>

definition Book_findById :: "id_supply \<Rightarrow> string \<Rightarrow> store \<Rightarrow> (error + jsval) \<times> store" where
  "Book_findById ids i s =
     (case fault s of
        Some m \<Rightarrow> (Inl (StorageError m), s)
      | None \<Rightarrow>
          (if \<not> wellformed ids i then (Inl (StorageError ''malformed identifier''), s)
           else
             (Inr (document_or_null
                     (map_option (\<lambda>fs. book_fields (i, fs)) (map_of (books s) i))), s)))"

text \<open>
  Modelled from the spec: \<open>Book.create(fields)\<close> (\<open>models/Book\<close> is not among the
  sources): assigns a new unique identity, persists the record verbatim and returns the
  new identity; a ValidationError if \<open>title\<close> is absent or empty, a StorageError on
  persistence failure.
\<close>

definition Book_create :: "id_supply \<Rightarrow> fields \<Rightarrow> store \<Rightarrow> (error + insert_result) \<times> store" where
  "Book_create ids body s =
     (if title_absent_or_empty body then
        (Inl (ValidationError ''title is required''), s)
      else
        (case fault s of
           Some m \<Rightarrow> (Inl (StorageError m), s)
         | None \<Rightarrow>
             (Inr \<lparr>insertedId = issue ids (issued s)\<rparr>,
              s\<lparr>books := books s @ [(issue ids (issued s), body)],
                issued := Suc (issued s)\<rparr>)))"

text \<open>
  Modelled from the spec: \<open>Book.update(id, fields)\<close> (\<open>models/Book\<close> is not among the
  sources): replaces all given fields on the record with the given identity and tells
  whether a record was matched; a no-op, not an error, if the identity does not exist;
  a StorageError on persistence failure.
\<close>

definition Book_update :: "string \<Rightarrow> fields \<Rightarrow> store \<Rightarrow> (error + update_result) \<times> store" where
  "Book_update i body s =
     (case fault s of
        Some m \<Rightarrow> (Inl (StorageError m), s)
      | None \<Rightarrow>
          (case map_of (books s) i of
             None \<Rightarrow> (Inr \<lparr>matchedCount = 0\<rparr>, s)
           | Some fs \<Rightarrow>
               (Inr \<lparr>matchedCount = 1\<rparr>,
                s\<lparr>books := AList.update i (AList.merge fs body) (books s)\<rparr>)))"

text \<open>
  Modelled from the spec: \<open>Book.delete(id)\<close> (\<open>models/Book\<close> is not among the
  sources): removes the record with the given identity and tells whether a record was
  matched (not an error if absent); a StorageError on persistence failure.
\<close>

definition Book_delete :: "string \<Rightarrow> store \<Rightarrow> (error + delete_result) \<times> store" where
  "Book_delete i s =
     (case fault s of
        Some m \<Rightarrow> (Inl (StorageError m), s)
      | None \<Rightarrow>
          (case map_of (books s) i of
             None \<Rightarrow> (Inr \<lparr>deletedCount = 0\<rparr>, s)
           | Some fs \<Rightarrow>
               (Inr \<lparr>deletedCount = 1\<rparr>, s\<lparr>books := AList.delete i (books s)\<rparr>)))"

text \<open>The two modules as the router requires them.\<close>

definition Book_db :: "id_supply \<Rightarrow> store backend" where
  "Book_db ids =
     \<lparr>checkConnection = db_checkConnection,
      findAll = Book_findAll,
      findById = Book_findById ids,
      create = Book_create ids,
      update = Book_update,
      delete = Book_delete\<rparr>"

text \<open>
  What the model relies on: distinct positions of the supply are distinct identities, and
  every identity of the supply is well-formed for the store.
\<close>

definition supply_ok :: "id_supply \<Rightarrow> bool" where
  "supply_ok ids \<longleftrightarrow> inj (issue ids) \<and> (\<forall>k. wellformed ids (issue ids k))"

text \<open>Every stored record is filed under an identity that was handed out.\<close>

definition store_ok :: "id_supply \<Rightarrow> store \<Rightarrow> bool" where
  "store_ok ids s \<longleftrightarrow> (\<forall>i \<in> fst ` set (books s). \<exists>k < issued s. i = issue ids k)"

definition empty_store :: store where
  "empty_store = \<lparr>books = [], issued = 0, fault = None\<rparr>"

section \<open>The authentication guard and the whole router\<close>

text \<open>
  Modelled from the spec: the session principal that the OAuth login puts into the session
  (the session layer is not among the sources): the provider's username and profile.
\<close>

record principal =
  username :: string
  profile :: fields

text \<open>A request to the router: the session principal, if a login established one, and the route.\<close>

record request =
  user :: "principal option"
  route :: operation

datatype outcome = Unauthorized | Responded response

text \<open>
  Modelled from the spec: \<open>isAuthenticated\<close> (\<open>middleware/authenticate\<close> is not among
  the sources). Given a request, the guard checks for a present session principal: if
  absent, it short-circuits with the unauthorized outcome; if present, it passes the
  request on unchanged.
\<close>

definition isAuthenticated :: "request \<Rightarrow> outcome + request" where
  "isAuthenticated req = (case user req of None \<Rightarrow> Inl Unauthorized | Some p \<Rightarrow> Inr req)"

text \<open>
  The router as the file assembles it: \<open>router.use(isAuthenticated)\<close> first, then the
  connectivity middleware, then the routes. A middleware that does not call \<open>next()\<close>
  ends the request.
\<close>

definition books_router :: "'st backend \<Rightarrow> request \<Rightarrow> 'st \<Rightarrow> outcome \<times> 'st \<times> trace" where
  "books_router M req s =
     (case isAuthenticated req of
        Inl out \<Rightarrow> (out, s, [])
      | Inr req' \<Rightarrow>
          (case books_routes M (route req') s of
             (r, s', tr) \<Rightarrow> (Responded r, s', tr)))"

text \<open>
  Modelled from the spec: the life of the external store (its driver is not among the
  sources). Requests are served one after the other, each a single sequence of guard,
  check, model operation and response; between them the store may become unreachable or
  reachable again.
\<close>

datatype event = Request request | Outage string | Recovery

fun store_after :: "id_supply \<Rightarrow> event \<Rightarrow> store \<Rightarrow> store" where
  "store_after ids (Request req) s = fst (snd (books_router (Book_db ids) req s))"
| "store_after ids (Outage m) s = s\<lparr>fault := Some m\<rparr>"
| "store_after ids Recovery s = s\<lparr>fault := None\<rparr>"

definition run :: "id_supply \<Rightarrow> event list \<Rightarrow> store \<Rightarrow> store" where
  "run ids evs s = foldl (\<lambda>t ev. store_after ids ev t) s evs"

section \<open>Example data\<close>

text \<open>A supply of identities: the k-th identity is a row of k+1 strokes.\<close>

definition strokes :: id_supply where
  "strokes = \<lparr>issue = (\<lambda>k. replicate (Suc k) (CHR ''i'')),
              wellformed = (\<lambda>i. i \<noteq> [] \<and> list_all (\<lambda>c. c = CHR ''i'') i)\<rparr>"

definition dune :: fields where
  "dune = [(''title'', JStr ''Dune''), (''authorId'', JStr ''a1'')]"

definition emma :: fields where
  "emma = [(''title'', JStr ''Emma''), (''authorId'', JStr ''a2''), (''pages'', JNum 474)]"

definition two_books :: store where
  "two_books = \<lparr>books = [(''i'', dune), (''ii'', emma)], issued = 2, fault = None\<rparr>"

definition visitor :: principal where
  "visitor = \<lparr>username = ''octocat'', profile = []\<rparr>"

text \<open>
  Two database layers that fail between calls: one loses the connection right after the
  probe has resolved, so that the first call on the model throws; one whose reads by
  identity time out, so that a record is written and cannot be read back.
\<close>

definition drops_after_probe :: "store backend" where
  "drops_after_probe =
     (Book_db strokes)\<lparr>checkConnection := (\<lambda>s. (Inr (), s\<lparr>fault := Some ''ECONNRESET''\<rparr>))\<rparr>"

definition reads_time_out :: "store backend" where
  "reads_time_out =
     (Book_db strokes)\<lparr>findById := (\<lambda>i s. (Inl (StorageError ''ETIMEDOUT''), s))\<rparr>"

section \<open>Unfolding the handlers and the model\<close>

lemmas handler_defs = get_books_def get_book_def post_book_def put_book_def delete_book_def
  error_500_def not_found_404_def

lemmas router_defs = books_router_def isAuthenticated_def books_routes_def handler_def

lemmas model_defs = db_checkConnection_def Book_findAll_def Book_findById_def Book_create_def
  Book_update_def Book_delete_def document_or_null_def book_fields_def title_absent_or_empty_def
  get_prop_def

lemmas example_defs = strokes_def dune_def emma_def two_books_def visitor_def empty_store_def

lemma Book_db_sel [simp]:
  "checkConnection (Book_db ids) = db_checkConnection"
  "findAll (Book_db ids) = Book_findAll"
  "findById (Book_db ids) = Book_findById ids"
  "create (Book_db ids) = Book_create ids"
  "update (Book_db ids) = Book_update"
  "delete (Book_db ids) = Book_delete"
  by (simp_all add: Book_db_def)

text \<open>
  Whatever a route awaits and sees thrown, its \<open>catch\<close> block answers: status 500, with
  the thrown error's own message.
\<close>

lemma handler_throw:
  "handler M opn s = (r, s', tr) \<Longrightarrow> (c, Some e) \<in> set tr \<Longrightarrow>
     status r = 500 \<and> get_prop (json r) ''success'' = JBool False
       \<and> get_prop (json r) ''message'' = JStr (message e) \<and> c \<noteq> CheckConnection"
  by (auto simp: handler_def handler_defs get_prop_def
      split: operation.splits prod.splits sum.splits if_splits)

section \<open>The modelled store: identities and reachable states\<close>

lemma map_of_dom: "map_of xs i \<noteq> None \<Longrightarrow> i \<in> fst ` set xs"
  by (simp add: map_of_eq_None_iff)

lemma db_checkConnection_healthy: "fault s = None \<Longrightarrow> db_checkConnection s = (Inr (), s)"
  by (simp add: db_checkConnection_def)

text \<open>The next identity of the supply is not in the store yet.\<close>

lemma fresh_identity:
  assumes "supply_ok ids" and "store_ok ids s"
  shows "map_of (books s) (issue ids (issued s)) = None"
proof -
  have "issue ids (issued s) \<notin> fst ` set (books s)"
  proof
    assume "issue ids (issued s) \<in> fst ` set (books s)"
    with assms(2) obtain k where k: "k < issued s" "issue ids (issued s) = issue ids k"
      unfolding store_ok_def by blast
    from assms(1) have "inj (issue ids)" by (simp add: supply_ok_def)
    with k(2) have "issued s = k" by (simp add: inj_eq)
    with k(1) show False by simp
  qed
  then show ?thesis by (simp add: map_of_eq_None_iff)
qed

lemma stored_identity_wellformed:
  assumes "supply_ok ids" and "store_ok ids s" and "map_of (books s) i = Some fs"
  shows "wellformed ids i"
proof -
  from assms(3) have "i \<in> fst ` set (books s)"
    by (simp add: map_of_dom)
  with assms(2) obtain k where "i = issue ids k" unfolding store_ok_def by blast
  with assms(1) show ?thesis by (simp add: supply_ok_def)
qed

text \<open>
  What one request can do to the store: nothing, append a record under the next identity,
  rewrite the record of a stored identity, or remove the records of an identity.
\<close>

lemma router_effect:
  "fst (snd (books_router (Book_db ids) req s)) = s
   \<or> (\<exists>body. fst (snd (books_router (Book_db ids) req s)) =
         s\<lparr>books := books s @ [(issue ids (issued s), body)], issued := Suc (issued s)\<rparr>)
   \<or> (\<exists>i v. map_of (books s) i \<noteq> None \<and> fst (snd (books_router (Book_db ids) req s)) =
         s\<lparr>books := AList.update i v (books s)\<rparr>)
   \<or> (\<exists>i. fst (snd (books_router (Book_db ids) req s)) =
         s\<lparr>books := AList.delete i (books s)\<rparr>)"
proof (cases "user req")
  case None
  then show ?thesis by (simp add: books_router_def isAuthenticated_def)
next
  case (Some p)
  show ?thesis
  proof (cases "fault s")
    case (Some m)
    with \<open>user req = Some p\<close> show ?thesis
      by (simp add: books_router_def isAuthenticated_def books_routes_def db_checkConnection_def)
  next
    case None
    note k = db_checkConnection_healthy [OF None]
    show ?thesis
    proof (cases "route req")
      case ListBooks
      with \<open>user req = Some p\<close> k None show ?thesis
        by (simp add: books_router_def isAuthenticated_def books_routes_def handler_def
            get_books_def Book_findAll_def)
    next
      case (GetBook i)
      with \<open>user req = Some p\<close> k None show ?thesis
        by (simp add: books_router_def isAuthenticated_def books_routes_def handler_def
            get_book_def Book_findById_def)
    next
      case (CreateBook body)
      with \<open>user req = Some p\<close> k None show ?thesis
        by (auto simp: books_router_def isAuthenticated_def books_routes_def handler_def
            post_book_def Book_create_def Book_findById_def)
    next
      case (UpdateBook i body)
      with \<open>user req = Some p\<close> k None show ?thesis
        by (auto simp: books_router_def isAuthenticated_def books_routes_def handler_def
            put_book_def Book_update_def Book_findById_def split: option.splits)
    next
      case (DeleteBook i)
      with \<open>user req = Some p\<close> k None show ?thesis
        by (auto simp: books_router_def isAuthenticated_def books_routes_def handler_def
            delete_book_def Book_delete_def split: option.splits)
    qed
  qed
qed

lemma store_ok_mono:
  assumes "store_ok ids s" and "fst ` set (books t) \<subseteq> fst ` set (books s)"
    and "issued s \<le> issued t"
  shows "store_ok ids t"
  unfolding store_ok_def
proof
  fix i
  assume "i \<in> fst ` set (books t)"
  with assms(2) have "i \<in> fst ` set (books s)" by blast
  with assms(1) obtain k where "k < issued s" "i = issue ids k"
    unfolding store_ok_def by blast
  with assms(3) have "k < issued t" by simp
  with \<open>i = issue ids k\<close> show "\<exists>k<issued t. i = issue ids k" by blast
qed

lemma store_ok_create:
  assumes "store_ok ids s"
  shows "store_ok ids
           (s\<lparr>books := books s @ [(issue ids (issued s), body)], issued := Suc (issued s)\<rparr>)"
  using assms by (auto simp: store_ok_def less_Suc_eq)

lemma empty_store_ok: "store_ok ids empty_store"
  by (simp add: store_ok_def empty_store_def)

lemma store_after_ok:
  assumes "store_ok ids s"
  shows "store_ok ids (store_after ids ev s)"
proof (cases ev)
  case (Request req)
  let ?t = "fst (snd (books_router (Book_db ids) req s))"
  from router_effect [of ids req s] have "store_ok ids ?t"
  proof (elim disjE exE conjE)
    assume "?t = s"
    with assms show ?thesis by simp
  next
    fix body
    assume "?t = s\<lparr>books := books s @ [(issue ids (issued s), body)], issued := Suc (issued s)\<rparr>"
    with store_ok_create [OF assms] show ?thesis by simp
  next
    fix i v
    assume "map_of (books s) i \<noteq> None" and t: "?t = s\<lparr>books := AList.update i v (books s)\<rparr>"
    then have "i \<in> fst ` set (books s)" "books ?t = AList.update i v (books s)"
      by (simp_all add: map_of_dom)
    then have "fst ` set (books ?t) \<subseteq> fst ` set (books s)"
      by (simp add: AList.dom_update)
    with assms t show ?thesis by (intro store_ok_mono [of ids s ?t]) simp_all
  next
    fix i
    assume t: "?t = s\<lparr>books := AList.delete i (books s)\<rparr>"
    then have "fst ` set (books ?t) \<subseteq> fst ` set (books s)"
      by (simp add: AList.dom_delete_subset)
    with assms t show ?thesis by (intro store_ok_mono [of ids s ?t]) simp_all
  qed
  with Request show ?thesis by simp
next
  case (Outage m)
  with assms show ?thesis by (simp add: store_ok_def)
next
  case Recovery
  with assms show ?thesis by (simp add: store_ok_def)
qed

lemma run_ok: "store_ok ids s \<Longrightarrow> store_ok ids (run ids evs s)"
  unfolding run_def
  by (induction evs arbitrary: s) (simp_all add: store_after_ok)

text \<open>Every state that the empty store can get into meets the condition.\<close>

lemma reachable_store_ok: "store_ok ids (run ids evs empty_store)"
  by (rule run_ok [OF empty_store_ok])

lemma store_after_issued: "issued s \<le> issued (store_after ids ev s)"
proof (cases ev)
  case (Request req)
  from router_effect [of ids req s] show ?thesis
    unfolding Request store_after.simps by (elim disjE exE conjE) auto
qed simp_all

text \<open>An identity that was handed out and is no longer in the store never comes back.\<close>

lemma store_after_gone:
  assumes "supply_ok ids" and "store_ok ids s" and "k < issued s"
    and "map_of (books s) (issue ids k) = None"
  shows "map_of (books (store_after ids ev s)) (issue ids k) = None"
proof (cases ev)
  case (Request req)
  from assms(1) have inj: "inj (issue ids)" by (simp add: supply_ok_def)
  from assms(3) have "issue ids (issued s) \<noteq> issue ids k"
    using inj by (simp add: inj_eq)
  with router_effect [of ids req s] assms(4) show ?thesis
    unfolding Request store_after.simps
    by (elim disjE exE conjE)
       (auto simp: AList.update_conv' AList.delete_conv' map_add_def)
next
  case (Outage m)
  with assms show ?thesis by simp
next
  case Recovery
  with assms show ?thesis by simp
qed

lemma run_gone:
  assumes "supply_ok ids"
  shows "store_ok ids s \<Longrightarrow> k < issued s \<Longrightarrow> map_of (books s) (issue ids k) = None \<Longrightarrow>
     map_of (books (run ids evs s)) (issue ids k) = None"
  unfolding run_def
proof (induction evs arbitrary: s)
  case Nil
  then show ?case by simp
next
  case (Cons ev evs)
  have "k < issued (store_after ids ev s)"
    using Cons.prems(2) store_after_issued [of s ids ev] by simp
  with Cons.IH [of "store_after ids ev s"] store_after_ok [OF Cons.prems(1)]
    store_after_gone [OF assms Cons.prems]
  show ?case by simp
qed

text \<open>The example supply and the example store meet the two conditions.\<close>

lemma strokes_ok: "supply_ok strokes"
proof -
  have "inj (\<lambda>k. replicate (Suc k) (CHR ''i''))"
  proof (rule injI)
    fix x y :: nat
    assume "replicate (Suc x) (CHR ''i'') = replicate (Suc y) (CHR ''i'')"
    then have "length (replicate (Suc x) (CHR ''i'')) = length (replicate (Suc y) (CHR ''i''))"
      by (rule arg_cong)
    then show "x = y" by simp
  qed
  then show ?thesis
    by (simp add: supply_ok_def strokes_def list_all_iff)
qed

lemma two_books_ok: "store_ok strokes two_books"
proof -
  have "''i'' = issue strokes 0" "''ii'' = issue strokes 1"
    by (simp_all add: strokes_def)
  then show ?thesis
    unfolding store_ok_def two_books_def
    by (auto intro: exI [of _ 0] exI [of _ 1])
qed

section \<open>The modelled Book operations, as the handlers rely on them\<close>

text \<open>While the store is reachable, \<open>findAll\<close> lists the stored records in their order.\<close>

lemma Book_findAll_reachable:
  "fault s = None \<Longrightarrow>
     findAll (Book_db ids) s = (Inr (map (\<lambda>b. JObj (book_fields b)) (books s)), s)"
  by (simp add: Book_findAll_def)

text \<open>A created record comes last in that order.\<close>

lemma Book_create_appends:
  assumes "fault s = None" and "\<not> title_absent_or_empty body"
    and "create (Book_db ids) body s = (res, s')"
  shows "books s' = books s @ [(issue ids (issued s), body)]"
  using assms by (auto simp: Book_create_def)

text \<open>\<open>findById\<close> resolves to the matching record, or to \<open>null\<close>.\<close>

lemma Book_findById_reachable:
  "fault s = None \<Longrightarrow> wellformed ids i \<Longrightarrow>
     findById (Book_db ids) i s =
       (Inr (document_or_null (map_option (\<lambda>fs. book_fields (i, fs)) (map_of (books s) i))), s)"
  by (simp add: Book_findById_def)

text \<open>\<open>update\<close> and \<open>delete\<close> on an identity that matches no record change nothing.\<close>

lemma Book_update_unmatched:
  "fault s = None \<Longrightarrow> map_of (books s) i = None \<Longrightarrow>
     update (Book_db ids) i body s = (Inr \<lparr>matchedCount = 0\<rparr>, s)"
  by (simp add: Book_update_def)

lemma Book_delete_unmatched:
  "fault s = None \<Longrightarrow> map_of (books s) i = None \<Longrightarrow>
     delete (Book_db ids) i s = (Inr \<lparr>deletedCount = 0\<rparr>, s)"
  by (simp add: Book_delete_def)

text \<open>After \<open>update\<close> on a stored identity, each given field reads as given; the others stay.\<close>

lemma Book_update_matched:
  assumes "fault s = None" and "map_of (books s) i = Some fs"
  shows "\<exists>s'. update (Book_db ids) i body s = (Inr \<lparr>matchedCount = 1\<rparr>, s')
           \<and> map_option map_of (map_of (books s') i) = Some (map_of fs ++ map_of body)"
  using assms by (simp add: Book_update_def AList.update_conv' AList.merge_conv')

section \<open>Creating a book\<close>

text \<open>
  C1. For every book payload whose title is present and non-empty, on a reachable store in
  a state the model can reach: \<open>create\<close> returns a new identity, \<open>findById\<close> on that
  identity then yields the record whose fields are the fields of the payload, under its
  \<open>_id\<close>; and POST /books, from a logged-in session, responds 201 with that re-read record
  as data. The title of a Book is a string; the theorem takes any title that the handler
  does not count as missing, which every non-empty string is.
\<close>

theorem create_then_findById_round_trip:
  assumes "supply_ok ids" and "store_ok ids s" and "fault s = None"
    and "\<not> falsy (get_prop body ''title'')"
    and "s' = s\<lparr>books := books s @ [(issue ids (issued s), body)], issued := Suc (issued s)\<rparr>"
  shows "create (Book_db ids) body s = (Inr \<lparr>insertedId = issue ids (issued s)\<rparr>, s')
    \<and> findById (Book_db ids) (issue ids (issued s)) s' =
         (Inr (JObj ((''_id'', JStr (issue ids (issued s))) # body)), s')
    \<and> books_router (Book_db ids) \<lparr>user = Some p, route = CreateBook body\<rparr> s =
         (Responded
            \<lparr>status = 201,
             json = [(''success'', JBool True),
                     (''data'', JObj ((''_id'', JStr (issue ids (issued s))) # body)),
                     (''message'', JStr ''Book created successfully'')]\<rparr>,
          s',
          [(CheckConnection, None), (Create body, None),
           (FindById (issue ids (issued s)), None)])"
proof -
  let ?i = "issue ids (issued s)"
  from assms(1) have wf: "wellformed ids ?i" by (simp add: supply_ok_def)
  have fresh: "map_of (books s) ?i = None" by (rule fresh_identity [OF assms(1,2)])
  from assms(4) have nt: "\<not> title_absent_or_empty body"
    by (auto simp: title_absent_or_empty_def)
  have c: "Book_create ids body s = (Inr \<lparr>insertedId = ?i\<rparr>, s')"
    using nt assms(3,5) by (simp add: Book_create_def)
  have f: "Book_findById ids ?i s' = (Inr (JObj ((''_id'', JStr ?i) # body)), s')"
    using wf fresh assms(3,5)
    by (simp add: Book_findById_def document_or_null_def book_fields_def map_add_def)
  have k: "db_checkConnection s = (Inr (), s)"
    using assms(3) by (simp add: db_checkConnection_def)
  show ?thesis
    using c f k assms(4)
    by (simp add: books_router_def isAuthenticated_def books_routes_def handler_def post_book_def)
qed

theorem create_then_findById_example:
  "supply_ok strokes \<and> store_ok strokes two_books \<and> fault two_books = None
   \<and> \<not> falsy (get_prop [(''title'', JStr ''Ubik''), (''pages'', JNum 202)] ''title'')
   \<and> books_router (Book_db strokes)
        \<lparr>user = Some visitor,
         route = CreateBook [(''title'', JStr ''Ubik''), (''pages'', JNum 202)]\<rparr> two_books =
       (Responded
          \<lparr>status = 201,
           json = [(''success'', JBool True),
                   (''data'', JObj [(''_id'', JStr ''iii''), (''title'', JStr ''Ubik''),
                                    (''pages'', JNum 202)]),
                   (''message'', JStr ''Book created successfully'')]\<rparr>,
        \<lparr>books = [(''i'', dune), (''ii'', emma),
                  (''iii'', [(''title'', JStr ''Ubik''), (''pages'', JNum 202)])],
         issued = 3, fault = None\<rparr>,
        [(CheckConnection, None),
         (Create [(''title'', JStr ''Ubik''), (''pages'', JNum 202)], None),
         (FindById ''iii'', None)])"
proof -
  have t: "\<not> falsy (get_prop [(''title'', JStr ''Ubik''), (''pages'', JNum 202)] ''title'')"
    by (simp add: get_prop_def)
  have f: "fault two_books = None"
    by (simp add: two_books_def)
  have i: "issue strokes (issued two_books) = ''iii''"
    by (simp add: strokes_def two_books_def numeral_2_eq_2)
  from create_then_findById_round_trip [OF strokes_ok two_books_ok f t refl, of visitor]
  show ?thesis
    unfolding i using strokes_ok two_books_ok f t
    by (simp add: two_books_def)
qed

text \<open>
  C2. The claim as the code has it: for every POST /books whose title is absent or empty,
  and equally for a title that is \<open>null\<close>, \<open>false\<close> or \<open>0\<close> (the handler tests
  \<open>!req.body.title\<close>), the handler responds 400 with success false and the message
  "Book title is required", leaves the store as it was and calls nothing on the model:
  the connectivity check is the only call of the request. It responds 400 in no other
  case. Stated for any model and database layer.
\<close>

theorem post_book_400_iff_title_falsy:
  "(falsy (get_prop body ''title'') \<longrightarrow>
      post_book M body s =
        (\<lparr>status = 400,
          json = [(''success'', JBool False), (''message'', JStr ''Book title is required'')]\<rparr>,
         s, []))
   \<and> (\<forall>u s1. falsy (get_prop body ''title'') \<and> checkConnection M s = (Inr u, s1) \<longrightarrow>
        books_routes M (CreateBook body) s =
          (\<lparr>status = 400,
            json = [(''success'', JBool False), (''message'', JStr ''Book title is required'')]\<rparr>,
           s1, [(CheckConnection, None)]))
   \<and> (status (fst (post_book M body s)) = 400 \<longrightarrow> falsy (get_prop body ''title''))
   \<and> (status (fst (books_routes M (CreateBook body) s)) = 400 \<longrightarrow>
        falsy (get_prop body ''title''))
   \<and> (title_absent_or_empty body \<longrightarrow> falsy (get_prop body ''title''))"
  by (auto simp: books_routes_def handler_def post_book_def error_500_def
      title_absent_or_empty_def split: prod.splits sum.splits)

theorem post_book_400_example:
  "title_absent_or_empty [(''authorId'', JStr ''a1'')]
   \<and> falsy (get_prop [(''authorId'', JStr ''a1'')] ''title'')
   \<and> checkConnection (Book_db strokes) two_books = (Inr (), two_books)
   \<and> post_book (Book_db strokes) [(''authorId'', JStr ''a1'')] two_books =
        (\<lparr>status = 400,
          json = [(''success'', JBool False), (''message'', JStr ''Book title is required'')]\<rparr>,
         two_books, [])
   \<and> books_routes (Book_db strokes) (CreateBook [(''authorId'', JStr ''a1'')]) two_books =
        (\<lparr>status = 400,
          json = [(''success'', JBool False), (''message'', JStr ''Book title is required'')]\<rparr>,
         two_books, [(CheckConnection, None)])
   \<and> status (fst (post_book (Book_db strokes) [(''authorId'', JStr ''a1'')] two_books)) = 400"
proof -
  have a: "title_absent_or_empty [(''authorId'', JStr ''a1'')]"
    by (simp add: title_absent_or_empty_def get_prop_def)
  have k: "checkConnection (Book_db strokes) two_books = (Inr (), two_books)"
    by (simp add: db_checkConnection_def two_books_def)
  from a k post_book_400_iff_title_falsy [of "[(''authorId'', JStr ''a1'')]" "Book_db strokes" two_books]
  show ?thesis by simp
qed

text \<open>
  C2 as stated fails on the last clause: a body whose title is the number 0 has a title
  that is neither absent nor empty, and the handler responds 400 all the same.
\<close>

theorem post_book_400_title_zero:
  "status (fst (post_book (Book_db strokes) [(''title'', JNum 0)] empty_store)) = 400
   \<and> \<not> title_absent_or_empty [(''title'', JNum 0)]"
  by (simp add: post_book_def title_absent_or_empty_def get_prop_def)

text \<open>
  C3. Every record stored through the public operations has a non-empty title and a
  present authorId, and create and update keep it so. The handlers do not: POST checks
  the title only, so a payload without authorId is stored as it is; PUT checks nothing,
  so it empties the title of a stored record.
\<close>

theorem stored_without_author_or_title:
  "books_router (Book_db strokes)
     \<lparr>user = Some visitor, route = CreateBook [(''title'', JStr ''Dune'')]\<rparr> empty_store =
     (Responded
        \<lparr>status = 201,
         json = [(''success'', JBool True),
                 (''data'', JObj [(''_id'', JStr ''i''), (''title'', JStr ''Dune'')]),
                 (''message'', JStr ''Book created successfully'')]\<rparr>,
      \<lparr>books = [(''i'', [(''title'', JStr ''Dune'')])], issued = 1, fault = None\<rparr>,
      [(CheckConnection, None), (Create [(''title'', JStr ''Dune'')], None),
       (FindById ''i'', None)])
   \<and> get_prop [(''title'', JStr ''Dune'')] ''authorId'' = JUndefined
   \<and> books_router (Book_db strokes)
        \<lparr>user = Some visitor, route = UpdateBook ''i'' [(''title'', JStr '''')]\<rparr> two_books =
       (Responded
          \<lparr>status = 200,
           json = [(''success'', JBool True),
                   (''data'', JObj [(''_id'', JStr ''i''), (''title'', JStr ''''),
                                    (''authorId'', JStr ''a1'')]),
                   (''message'', JStr ''Book updated successfully'')]\<rparr>,
        \<lparr>books = [(''i'', [(''title'', JStr ''''), (''authorId'', JStr ''a1'')]), (''ii'', emma)],
         issued = 2, fault = None\<rparr>,
        [(CheckConnection, None), (Update ''i'' [(''title'', JStr '''')], None),
         (FindById ''i'', None)])"
  by (simp add: router_defs post_book_def put_book_def model_defs example_defs
      AList.merge_def)

section \<open>The guard and the failures of the store\<close>

text \<open>
  C4. For every request to any of the five operations that carries no session principal,
  the router answers with the guard's rejection, the store is untouched and nothing was
  called on the database layer or the model (no connectivity check, no Book call); for
  every request with a principal, the guard hands the request on unchanged and the
  outcome is that of the connectivity middleware and the route. Stated for any model and
  database layer.
\<close>

theorem guard_rejects_before_store:
  "(user req = None \<longrightarrow> books_router M req s = (Unauthorized, s, []))
   \<and> (\<forall>p. user req = Some p \<longrightarrow>
         isAuthenticated req = Inr req
         \<and> books_router M req s =
             (case books_routes M (route req) s of (r, s', tr) \<Rightarrow> (Responded r, s', tr)))"
  by (simp add: books_router_def isAuthenticated_def)

theorem guard_example:
  "user \<lparr>user = None, route = DeleteBook ''i''\<rparr> = None
   \<and> books_router (Book_db strokes) \<lparr>user = None, route = DeleteBook ''i''\<rparr> two_books
       = (Unauthorized, two_books, [])
   \<and> user \<lparr>user = Some visitor, route = DeleteBook ''i''\<rparr> = Some visitor
   \<and> isAuthenticated \<lparr>user = Some visitor, route = DeleteBook ''i''\<rparr>
       = Inr \<lparr>user = Some visitor, route = DeleteBook ''i''\<rparr>"
  using guard_rejects_before_store
      [of "\<lparr>user = None, route = DeleteBook ''i''\<rparr>" "Book_db strokes" two_books]
    guard_rejects_before_store
      [of "\<lparr>user = Some visitor, route = DeleteBook ''i''\<rparr>" "Book_db strokes" two_books]
  by simp

text \<open>
  C5. For every one of the five operations, on any model and database layer: the
  connectivity check is the first call of the request; if it throws, the response is 500
  with success false, the message "Database connection failed" and the thrown error's own
  message as \<open>error\<close>, and nothing is called on the model; if it resolves and a call on
  the model throws (\<open>findAll\<close>; \<open>findById\<close>; \<open>create\<close>, or the \<open>findById\<close> after it;
  \<open>update\<close>, or the \<open>findById\<close> after it; \<open>delete\<close>), the response is 500 with
  success false and the thrown error's own message as \<open>message\<close>, and no further call is
  made.
\<close>

theorem store_failures_answered_500:
  "(\<exists>x rest. snd (snd (books_routes M opn s)) = (CheckConnection, x) # rest)
   \<and> (\<forall>e s1. checkConnection M s = (Inl e, s1) \<longrightarrow>
         books_routes M opn s =
           (\<lparr>status = 500,
             json = [(''success'', JBool False), (''message'', JStr ''Database connection failed''),
                     (''error'', JStr (message e))]\<rparr>,
            s1, [(CheckConnection, Some e)]))
   \<and> (\<forall>u s1. checkConnection M s = (Inr u, s1) \<longrightarrow>
         (\<forall>e s2. findAll M s1 = (Inl e, s2) \<longrightarrow>
            books_routes M ListBooks s =
              (\<lparr>status = 500,
                json = [(''success'', JBool False), (''message'', JStr (message e)),
                        (''details'', JStr ''Failed to fetch books'')]\<rparr>,
               s2, [(CheckConnection, None), (FindAll, Some e)]))
       \<and> (\<forall>i e s2. findById M i s1 = (Inl e, s2) \<longrightarrow>
            books_routes M (GetBook i) s =
              (\<lparr>status = 500,
                json = [(''success'', JBool False), (''message'', JStr (message e))]\<rparr>,
               s2, [(CheckConnection, None), (FindById i, Some e)]))
       \<and> (\<forall>body e s2.
            \<not> falsy (get_prop body ''title'') \<and> create M body s1 = (Inl e, s2) \<longrightarrow>
            books_routes M (CreateBook body) s =
              (\<lparr>status = 500,
                json = [(''success'', JBool False), (''message'', JStr (message e))]\<rparr>,
               s2, [(CheckConnection, None), (Create body, Some e)]))
       \<and> (\<forall>body res s2 e s3.
            \<not> falsy (get_prop body ''title'') \<and> create M body s1 = (Inr res, s2)
            \<and> findById M (insertedId res) s2 = (Inl e, s3) \<longrightarrow>
            books_routes M (CreateBook body) s =
              (\<lparr>status = 500,
                json = [(''success'', JBool False), (''message'', JStr (message e))]\<rparr>,
               s3,
               [(CheckConnection, None), (Create body, None),
                (FindById (insertedId res), Some e)]))
       \<and> (\<forall>i body e s2. update M i body s1 = (Inl e, s2) \<longrightarrow>
            books_routes M (UpdateBook i body) s =
              (\<lparr>status = 500,
                json = [(''success'', JBool False), (''message'', JStr (message e))]\<rparr>,
               s2, [(CheckConnection, None), (Update i body, Some e)]))
       \<and> (\<forall>i body res s2 e s3.
            update M i body s1 = (Inr res, s2) \<and> matchedCount res \<noteq> 0
            \<and> findById M i s2 = (Inl e, s3) \<longrightarrow>
            books_routes M (UpdateBook i body) s =
              (\<lparr>status = 500,
                json = [(''success'', JBool False), (''message'', JStr (message e))]\<rparr>,
               s3, [(CheckConnection, None), (Update i body, None), (FindById i, Some e)]))
       \<and> (\<forall>i e s2. delete M i s1 = (Inl e, s2) \<longrightarrow>
            books_routes M (DeleteBook i) s =
              (\<lparr>status = 500,
                json = [(''success'', JBool False), (''message'', JStr (message e))]\<rparr>,
               s2, [(CheckConnection, None), (Delete i, Some e)])))"
proof (intro conjI allI impI)
  show "\<exists>x rest. snd (snd (books_routes M opn s)) = (CheckConnection, x) # rest"
    by (auto simp: books_routes_def split: prod.splits sum.splits)
qed (simp_all add: books_routes_def handler_def handler_defs)

theorem store_failures_example:
  "checkConnection (Book_db strokes) (two_books\<lparr>fault := Some ''ECONNREFUSED''\<rparr>) =
       (Inl (StorageError ''ECONNREFUSED''), two_books\<lparr>fault := Some ''ECONNREFUSED''\<rparr>)
   \<and> books_routes (Book_db strokes) (UpdateBook ''i'' emma)
        (two_books\<lparr>fault := Some ''ECONNREFUSED''\<rparr>) =
       (\<lparr>status = 500,
         json = [(''success'', JBool False), (''message'', JStr ''Database connection failed''),
                 (''error'', JStr ''ECONNREFUSED'')]\<rparr>,
        two_books\<lparr>fault := Some ''ECONNREFUSED''\<rparr>,
        [(CheckConnection, Some (StorageError ''ECONNREFUSED''))])
   \<and> checkConnection drops_after_probe two_books =
       (Inr (), two_books\<lparr>fault := Some ''ECONNRESET''\<rparr>)
   \<and> findAll drops_after_probe (two_books\<lparr>fault := Some ''ECONNRESET''\<rparr>) =
       (Inl (StorageError ''ECONNRESET''), two_books\<lparr>fault := Some ''ECONNRESET''\<rparr>)
   \<and> books_routes drops_after_probe ListBooks two_books =
       (\<lparr>status = 500,
         json = [(''success'', JBool False), (''message'', JStr ''ECONNRESET''),
                 (''details'', JStr ''Failed to fetch books'')]\<rparr>,
        two_books\<lparr>fault := Some ''ECONNRESET''\<rparr>,
        [(CheckConnection, None), (FindAll, Some (StorageError ''ECONNRESET''))])
   \<and> books_routes drops_after_probe (GetBook ''i'') two_books =
       (\<lparr>status = 500,
         json = [(''success'', JBool False), (''message'', JStr ''ECONNRESET'')]\<rparr>,
        two_books\<lparr>fault := Some ''ECONNRESET''\<rparr>,
        [(CheckConnection, None), (FindById ''i'', Some (StorageError ''ECONNRESET''))])
   \<and> books_routes drops_after_probe (CreateBook dune) two_books =
       (\<lparr>status = 500,
         json = [(''success'', JBool False), (''message'', JStr ''ECONNRESET'')]\<rparr>,
        two_books\<lparr>fault := Some ''ECONNRESET''\<rparr>,
        [(CheckConnection, None), (Create dune, Some (StorageError ''ECONNRESET''))])
   \<and> books_routes drops_after_probe (UpdateBook ''i'' emma) two_books =
       (\<lparr>status = 500,
         json = [(''success'', JBool False), (''message'', JStr ''ECONNRESET'')]\<rparr>,
        two_books\<lparr>fault := Some ''ECONNRESET''\<rparr>,
        [(CheckConnection, None), (Update ''i'' emma, Some (StorageError ''ECONNRESET''))])
   \<and> books_routes drops_after_probe (DeleteBook ''i'') two_books =
       (\<lparr>status = 500,
         json = [(''success'', JBool False), (''message'', JStr ''ECONNRESET'')]\<rparr>,
        two_books\<lparr>fault := Some ''ECONNRESET''\<rparr>,
        [(CheckConnection, None), (Delete ''i'', Some (StorageError ''ECONNRESET''))])
   \<and> create reads_time_out dune empty_store =
       (Inr \<lparr>insertedId = ''i''\<rparr>, \<lparr>books = [(''i'', dune)], issued = 1, fault = None\<rparr>)
   \<and> books_routes reads_time_out (CreateBook dune) empty_store =
       (\<lparr>status = 500,
         json = [(''success'', JBool False), (''message'', JStr ''ETIMEDOUT'')]\<rparr>,
        \<lparr>books = [(''i'', dune)], issued = 1, fault = None\<rparr>,
        [(CheckConnection, None), (Create dune, None),
         (FindById ''i'', Some (StorageError ''ETIMEDOUT''))])
   \<and> books_routes reads_time_out (UpdateBook ''ii'' []) two_books =
       (\<lparr>status = 500,
         json = [(''success'', JBool False), (''message'', JStr ''ETIMEDOUT'')]\<rparr>,
        two_books,
        [(CheckConnection, None), (Update ''ii'' [], None),
         (FindById ''ii'', Some (StorageError ''ETIMEDOUT''))])"
proof -
  let ?out = "two_books\<lparr>fault := Some ''ECONNREFUSED''\<rparr>"
  let ?lost = "two_books\<lparr>fault := Some ''ECONNRESET''\<rparr>"
  let ?one = "\<lparr>books = [(''i'', dune)], issued = 1, fault = None\<rparr>"
  have c: "checkConnection (Book_db strokes) ?out = (Inl (StorageError ''ECONNREFUSED''), ?out)"
    by (simp add: db_checkConnection_def)
  have p: "checkConnection drops_after_probe two_books = (Inr (), ?lost)"
    by (simp add: drops_after_probe_def)
  have d: "findAll drops_after_probe ?lost = (Inl (StorageError ''ECONNRESET''), ?lost)"
    "findById drops_after_probe ''i'' ?lost = (Inl (StorageError ''ECONNRESET''), ?lost)"
    "create drops_after_probe dune ?lost = (Inl (StorageError ''ECONNRESET''), ?lost)"
    "update drops_after_probe ''i'' emma ?lost = (Inl (StorageError ''ECONNRESET''), ?lost)"
    "delete drops_after_probe ''i'' ?lost = (Inl (StorageError ''ECONNRESET''), ?lost)"
    by (simp_all add: drops_after_probe_def model_defs dune_def)
  have t: "\<not> falsy (get_prop dune ''title'')"
    by (simp add: dune_def get_prop_def)
  have q: "checkConnection reads_time_out empty_store = (Inr (), empty_store)"
    "checkConnection reads_time_out two_books = (Inr (), two_books)"
    by (simp_all add: reads_time_out_def db_checkConnection_def empty_store_def two_books_def)
  have w: "create reads_time_out dune empty_store = (Inr \<lparr>insertedId = ''i''\<rparr>, ?one)"
    by (simp add: reads_time_out_def model_defs dune_def empty_store_def strokes_def)
  have r: "findById reads_time_out (insertedId \<lparr>insertedId = ''i''\<rparr>) ?one
             = (Inl (StorageError ''ETIMEDOUT''), ?one)"
    "findById reads_time_out ''ii'' two_books = (Inl (StorageError ''ETIMEDOUT''), two_books)"
    by (simp_all add: reads_time_out_def)
  have u: "update reads_time_out ''ii'' [] two_books = (Inr \<lparr>matchedCount = 1\<rparr>, two_books)"
    by (simp add: reads_time_out_def Book_update_def two_books_def emma_def AList.merge_def)
  have m: "matchedCount \<lparr>matchedCount = 1\<rparr> \<noteq> 0" by simp
  note a = store_failures_answered_500 [of "Book_db strokes" "UpdateBook ''i'' emma" ?out]
  note b = store_failures_answered_500 [of drops_after_probe ListBooks two_books]
  note e = store_failures_answered_500 [of reads_time_out ListBooks empty_store]
  note f = store_failures_answered_500 [of reads_time_out ListBooks two_books]
  from a c have 1: "books_routes (Book_db strokes) (UpdateBook ''i'' emma) ?out =
       (\<lparr>status = 500,
         json = [(''success'', JBool False), (''message'', JStr ''Database connection failed''),
                 (''error'', JStr ''ECONNREFUSED'')]\<rparr>,
        ?out, [(CheckConnection, Some (StorageError ''ECONNREFUSED''))])"
    by simp
  from b p d t have 2:
    "books_routes drops_after_probe ListBooks two_books =
       (\<lparr>status = 500,
         json = [(''success'', JBool False), (''message'', JStr ''ECONNRESET''),
                 (''details'', JStr ''Failed to fetch books'')]\<rparr>,
        ?lost, [(CheckConnection, None), (FindAll, Some (StorageError ''ECONNRESET''))])"
    "books_routes drops_after_probe (GetBook ''i'') two_books =
       (\<lparr>status = 500,
         json = [(''success'', JBool False), (''message'', JStr ''ECONNRESET'')]\<rparr>,
        ?lost, [(CheckConnection, None), (FindById ''i'', Some (StorageError ''ECONNRESET''))])"
    "books_routes drops_after_probe (CreateBook dune) two_books =
       (\<lparr>status = 500,
         json = [(''success'', JBool False), (''message'', JStr ''ECONNRESET'')]\<rparr>,
        ?lost, [(CheckConnection, None), (Create dune, Some (StorageError ''ECONNRESET''))])"
    "books_routes drops_after_probe (UpdateBook ''i'' emma) two_books =
       (\<lparr>status = 500,
         json = [(''success'', JBool False), (''message'', JStr ''ECONNRESET'')]\<rparr>,
        ?lost, [(CheckConnection, None), (Update ''i'' emma, Some (StorageError ''ECONNRESET''))])"
    "books_routes drops_after_probe (DeleteBook ''i'') two_books =
       (\<lparr>status = 500,
         json = [(''success'', JBool False), (''message'', JStr ''ECONNRESET'')]\<rparr>,
        ?lost, [(CheckConnection, None), (Delete ''i'', Some (StorageError ''ECONNRESET''))])"
    by simp_all
  from e q(1) t w r(1) have 3:
    "books_routes reads_time_out (CreateBook dune) empty_store =
       (\<lparr>status = 500,
         json = [(''success'', JBool False), (''message'', JStr ''ETIMEDOUT'')]\<rparr>,
        ?one,
        [(CheckConnection, None), (Create dune, None),
         (FindById ''i'', Some (StorageError ''ETIMEDOUT''))])"
    by fastforce
  from f q(2) u m r(2) have 4:
    "books_routes reads_time_out (UpdateBook ''ii'' []) two_books =
       (\<lparr>status = 500,
         json = [(''success'', JBool False), (''message'', JStr ''ETIMEDOUT'')]\<rparr>,
        two_books,
        [(CheckConnection, None), (Update ''ii'' [], None),
         (FindById ''ii'', Some (StorageError ''ETIMEDOUT''))])"
    by fastforce
  from c 1 p d(1) 2 w 3 4 show ?thesis by simp
qed

section \<open>Reading, updating and deleting books\<close>

text \<open>
  C6. For every state of the store in which the connectivity check passes and
  \<open>Book.findAll()\<close> resolves (to the stored records in their insertion order, the empty
  sequence when there are none), GET /books responds 200 with success true, that very
  sequence as data, and its length as count. Stated for any model and database layer.
\<close>

theorem list_books_envelope:
  assumes "checkConnection M s = (Inr u, s1)" and "findAll M s1 = (Inr stored, s2)"
  shows "books_routes M ListBooks s =
           (\<lparr>status = 200,
             json = [(''success'', JBool True), (''count'', JNum (int (length stored))),
                     (''data'', JArr stored)]\<rparr>,
            s2, [(CheckConnection, None), (FindAll, None)])"
  using assms by (simp add: books_routes_def handler_def get_books_def)

theorem list_books_example:
  "checkConnection (Book_db strokes) two_books = (Inr (), two_books)
   \<and> findAll (Book_db strokes) two_books =
       (Inr [JObj ((''_id'', JStr ''i'') # dune), JObj ((''_id'', JStr ''ii'') # emma)], two_books)
   \<and> books_routes (Book_db strokes) ListBooks two_books =
       (\<lparr>status = 200,
         json = [(''success'', JBool True), (''count'', JNum 2),
                 (''data'', JArr [JObj ((''_id'', JStr ''i'') # dune),
                                  JObj ((''_id'', JStr ''ii'') # emma)])]\<rparr>,
        two_books, [(CheckConnection, None), (FindAll, None)])
   \<and> books_routes (Book_db strokes) ListBooks empty_store =
       (\<lparr>status = 200,
         json = [(''success'', JBool True), (''count'', JNum 0), (''data'', JArr [])]\<rparr>,
        empty_store, [(CheckConnection, None), (FindAll, None)])"
proof -
  have k: "checkConnection (Book_db strokes) two_books = (Inr (), two_books)"
    "checkConnection (Book_db strokes) empty_store = (Inr (), empty_store)"
    by (simp_all add: db_checkConnection_def two_books_def empty_store_def)
  have f: "findAll (Book_db strokes) two_books =
       (Inr [JObj ((''_id'', JStr ''i'') # dune), JObj ((''_id'', JStr ''ii'') # emma)], two_books)"
    "findAll (Book_db strokes) empty_store = (Inr [], empty_store)"
    by (simp_all add: Book_findAll_def book_fields_def two_books_def empty_store_def)
  from list_books_envelope [OF k(1) f(1)] list_books_envelope [OF k(2) f(2)] k f
  show ?thesis by simp
qed

text \<open>
  C7. For every identity, when the connectivity check passes and \<open>Book.findById(id)\<close>
  resolves to the stored record that matches the identity, or to \<open>null\<close> when none does:
  GET /books/:id responds 404 with success false and the message "Book not found" exactly
  when no stored record matches (and that is an answer, not an error), and responds 200
  with the matching record as data when one exists. Stated for any model and database
  layer.
\<close>

theorem get_book_404_iff_no_match:
  assumes "checkConnection M s = (Inr u, s1)"
    and "findById M i s1 = (Inr (document_or_null stored), s2)"
  shows "(status (fst (books_routes M (GetBook i) s)) = 404 \<longleftrightarrow> stored = None)
    \<and> (stored = None \<longrightarrow>
         books_routes M (GetBook i) s =
           (\<lparr>status = 404,
             json = [(''success'', JBool False), (''message'', JStr ''Book not found'')]\<rparr>,
            s2, [(CheckConnection, None), (FindById i, None)]))
    \<and> (\<forall>book. stored = Some book \<longrightarrow>
         books_routes M (GetBook i) s =
           (\<lparr>status = 200, json = [(''success'', JBool True), (''data'', JObj book)]\<rparr>,
            s2, [(CheckConnection, None), (FindById i, None)]))"
  using assms
  by (cases stored)
     (simp_all add: books_routes_def handler_def get_book_def not_found_404_def
        document_or_null_def)

theorem get_book_example:
  "checkConnection (Book_db strokes) two_books = (Inr (), two_books)
   \<and> findById (Book_db strokes) ''iii'' two_books = (Inr (document_or_null None), two_books)
   \<and> books_routes (Book_db strokes) (GetBook ''iii'') two_books =
       (\<lparr>status = 404,
         json = [(''success'', JBool False), (''message'', JStr ''Book not found'')]\<rparr>,
        two_books, [(CheckConnection, None), (FindById ''iii'', None)])
   \<and> findById (Book_db strokes) ''ii'' two_books =
       (Inr (document_or_null (Some ((''_id'', JStr ''ii'') # emma))), two_books)
   \<and> books_routes (Book_db strokes) (GetBook ''ii'') two_books =
       (\<lparr>status = 200,
         json = [(''success'', JBool True), (''data'', JObj ((''_id'', JStr ''ii'') # emma))]\<rparr>,
        two_books, [(CheckConnection, None), (FindById ''ii'', None)])"
proof -
  have k: "checkConnection (Book_db strokes) two_books = (Inr (), two_books)"
    by (simp add: db_checkConnection_def two_books_def)
  have n: "findById (Book_db strokes) ''iii'' two_books = (Inr (document_or_null None), two_books)"
    by (simp add: Book_findById_def two_books_def strokes_def)
  have f: "findById (Book_db strokes) ''ii'' two_books =
       (Inr (document_or_null (Some ((''_id'', JStr ''ii'') # emma))), two_books)"
    by (simp add: Book_findById_def book_fields_def two_books_def strokes_def)
  from get_book_404_iff_no_match [OF k n] get_book_404_iff_no_match [OF k f] k n f
  show ?thesis by simp
qed

text \<open>
  C8. For every identity and every body, when the connectivity check passes: if
  \<open>Book.update\<close> reports zero records matched and leaves the store as it was (what it
  does for an identity that matches no stored record), PUT /books/:id responds 404 with
  success false and the message "Book not found", calls nothing further and leaves the
  store unchanged; if it reports a match, PUT responds 200 with the record read back from
  the store as data. Stated for any model and database layer.
\<close>

theorem put_book_unmatched_or_matched:
  assumes "checkConnection M s = (Inr u, s1)"
  shows "(update M i body s1 = (Inr \<lparr>matchedCount = 0\<rparr>, s1) \<longrightarrow>
           books_routes M (UpdateBook i body) s =
             (\<lparr>status = 404,
               json = [(''success'', JBool False), (''message'', JStr ''Book not found'')]\<rparr>,
              s1, [(CheckConnection, None), (Update i body, None)]))
    \<and> (\<forall>res s2 updated s3.
          update M i body s1 = (Inr res, s2) \<and> matchedCount res \<noteq> 0
          \<and> findById M i s2 = (Inr updated, s3) \<longrightarrow>
           books_routes M (UpdateBook i body) s =
             (\<lparr>status = 200,
               json = [(''success'', JBool True), (''data'', updated),
                       (''message'', JStr ''Book updated successfully'')]\<rparr>,
              s3, [(CheckConnection, None), (Update i body, None), (FindById i, None)]))"
  using assms
  by (simp add: books_routes_def handler_def put_book_def not_found_404_def)

theorem put_book_example:
  "checkConnection (Book_db strokes) two_books = (Inr (), two_books)
   \<and> update (Book_db strokes) ''iii'' [(''pages'', JNum 480)] two_books =
       (Inr \<lparr>matchedCount = 0\<rparr>, two_books)
   \<and> books_routes (Book_db strokes) (UpdateBook ''iii'' [(''pages'', JNum 480)]) two_books =
       (\<lparr>status = 404,
         json = [(''success'', JBool False), (''message'', JStr ''Book not found'')]\<rparr>,
        two_books, [(CheckConnection, None), (Update ''iii'' [(''pages'', JNum 480)], None)])
   \<and> books_routes (Book_db strokes) (UpdateBook ''ii'' [(''pages'', JNum 480)]) two_books =
       (\<lparr>status = 200,
         json = [(''success'', JBool True),
                 (''data'', JObj [(''_id'', JStr ''ii''), (''title'', JStr ''Emma''),
                                  (''authorId'', JStr ''a2''), (''pages'', JNum 480)]),
                 (''message'', JStr ''Book updated successfully'')]\<rparr>,
        \<lparr>books = [(''i'', dune),
                  (''ii'', [(''title'', JStr ''Emma''), (''authorId'', JStr ''a2''),
                           (''pages'', JNum 480)])],
         issued = 2, fault = None\<rparr>,
        [(CheckConnection, None), (Update ''ii'' [(''pages'', JNum 480)], None),
         (FindById ''ii'', None)])"
proof -
  let ?new = "\<lparr>books = [(''i'', dune),
                  (''ii'', [(''title'', JStr ''Emma''), (''authorId'', JStr ''a2''),
                           (''pages'', JNum 480)])],
         issued = 2, fault = None\<rparr>"
  have k: "checkConnection (Book_db strokes) two_books = (Inr (), two_books)"
    by (simp add: db_checkConnection_def two_books_def)
  have n: "update (Book_db strokes) ''iii'' [(''pages'', JNum 480)] two_books =
       (Inr \<lparr>matchedCount = 0\<rparr>, two_books)"
    by (simp add: Book_update_def two_books_def)
  have m: "update (Book_db strokes) ''ii'' [(''pages'', JNum 480)] two_books =
       (Inr \<lparr>matchedCount = 1\<rparr>, ?new)"
    by (simp add: Book_update_def two_books_def emma_def AList.merge_def)
  have f: "findById (Book_db strokes) ''ii'' ?new =
       (Inr (JObj [(''_id'', JStr ''ii''), (''title'', JStr ''Emma''),
                   (''authorId'', JStr ''a2''), (''pages'', JNum 480)]), ?new)"
    by (simp add: Book_findById_def document_or_null_def book_fields_def strokes_def)
  from put_book_unmatched_or_matched [OF k, of "''iii''" "[(''pages'', JNum 480)]"]
    put_book_unmatched_or_matched [OF k, of "''ii''" "[(''pages'', JNum 480)]"] k n m f
  show ?thesis by simp
qed

text \<open>
  C9. For every identity of a record in the store (reachable, and in a state the model can
  reach), DELETE /books/:id from a logged-in session responds 200 with success true and
  the message "Book deleted successfully"; \<open>findById\<close> on that identity then yields the
  not-found signal and GET /books/:id responds 404, right away and after whatever
  requests, outages and recoveries follow; DELETE on an identity that matches no record
  responds 404.
\<close>

theorem delete_then_not_found:
  assumes "supply_ok ids" and "store_ok ids s" and "fault s = None"
    and "map_of (books s) i = Some fs"
    and "s' = s\<lparr>books := AList.delete i (books s)\<rparr>"
  shows "books_router (Book_db ids) \<lparr>user = Some p, route = DeleteBook i\<rparr> s =
           (Responded
              \<lparr>status = 200,
               json = [(''success'', JBool True),
                       (''message'', JStr ''Book deleted successfully'')]\<rparr>,
            s', [(CheckConnection, None), (Delete i, None)])
    \<and> findById (Book_db ids) i s' = (Inr JNull, s')
    \<and> books_router (Book_db ids) \<lparr>user = Some q, route = GetBook i\<rparr> s' =
           (Responded
              \<lparr>status = 404,
               json = [(''success'', JBool False), (''message'', JStr ''Book not found'')]\<rparr>,
            s', [(CheckConnection, None), (FindById i, None)])
    \<and> (\<forall>evs. map_of (books (run ids evs s')) i = None)
    \<and> (\<forall>evs. fault (run ids evs s') = None \<longrightarrow>
          books_router (Book_db ids) \<lparr>user = Some q, route = GetBook i\<rparr> (run ids evs s') =
            (Responded
               \<lparr>status = 404,
                json = [(''success'', JBool False), (''message'', JStr ''Book not found'')]\<rparr>,
             run ids evs s', [(CheckConnection, None), (FindById i, None)]))
    \<and> (\<forall>j. map_of (books s) j = None \<longrightarrow>
          books_router (Book_db ids) \<lparr>user = Some p, route = DeleteBook j\<rparr> s =
            (Responded
               \<lparr>status = 404,
                json = [(''success'', JBool False), (''message'', JStr ''Book not found'')]\<rparr>,
             s, [(CheckConnection, None), (Delete j, None)]))"
proof -
  have wf: "wellformed ids i"
    by (rule stored_identity_wellformed [OF assms(1,2,4)])
  from assms(4) have "i \<in> fst ` set (books s)"
    by (simp add: map_of_dom)
  with assms(2) obtain k where k: "k < issued s" "i = issue ids k"
    unfolding store_ok_def by blast
  have ok': "store_ok ids s'"
    using assms(2,5) by (intro store_ok_mono [of ids s s']) (simp_all add: AList.dom_delete_subset)
  have k': "k < issued s'" using k(1) assms(5) by simp
  have gone: "map_of (books s') i = None"
    using assms(5) by (simp add: AList.delete_conv')
  have later: "map_of (books (run ids evs s')) i = None" for evs
    using run_gone [OF assms(1) ok' k'] gone k(2) by simp
  have get: "books_router (Book_db ids) \<lparr>user = Some q, route = GetBook i\<rparr> t =
            (Responded
               \<lparr>status = 404,
                json = [(''success'', JBool False), (''message'', JStr ''Book not found'')]\<rparr>,
             t, [(CheckConnection, None), (FindById i, None)])"
    if "fault t = None" "map_of (books t) i = None" for t
    using that wf
    by (simp add: router_defs get_book_def not_found_404_def db_checkConnection_def
        Book_findById_def document_or_null_def)
  have f': "fault s' = None" using assms(3,5) by simp
  have 1: "books_router (Book_db ids) \<lparr>user = Some p, route = DeleteBook i\<rparr> s =
           (Responded
              \<lparr>status = 200,
               json = [(''success'', JBool True),
                       (''message'', JStr ''Book deleted successfully'')]\<rparr>,
            s', [(CheckConnection, None), (Delete i, None)])"
    using assms(3,4,5)
    by (simp add: router_defs delete_book_def db_checkConnection_def Book_delete_def)
  have 2: "findById (Book_db ids) i s' = (Inr JNull, s')"
    using f' gone wf by (simp add: Book_findById_def document_or_null_def)
  have 6: "books_router (Book_db ids) \<lparr>user = Some p, route = DeleteBook j\<rparr> s =
            (Responded
               \<lparr>status = 404,
                json = [(''success'', JBool False), (''message'', JStr ''Book not found'')]\<rparr>,
             s, [(CheckConnection, None), (Delete j, None)])"
    if "map_of (books s) j = None" for j
    using that assms(3)
    by (simp add: router_defs delete_book_def not_found_404_def db_checkConnection_def
        Book_delete_def)
  show ?thesis
    using 1 2 get [OF f' gone] later get 6 by blast
qed

theorem delete_then_not_found_example:
  "supply_ok strokes \<and> store_ok strokes two_books \<and> fault two_books = None
   \<and> map_of (books two_books) ''i'' = Some dune
   \<and> books_router (Book_db strokes) \<lparr>user = Some visitor, route = DeleteBook ''i''\<rparr> two_books =
       (Responded
          \<lparr>status = 200,
           json = [(''success'', JBool True), (''message'', JStr ''Book deleted successfully'')]\<rparr>,
        \<lparr>books = [(''ii'', emma)], issued = 2, fault = None\<rparr>,
        [(CheckConnection, None), (Delete ''i'', None)])
   \<and> books_router (Book_db strokes) \<lparr>user = Some visitor, route = GetBook ''i''\<rparr>
        \<lparr>books = [(''ii'', emma)], issued = 2, fault = None\<rparr> =
       (Responded
          \<lparr>status = 404,
           json = [(''success'', JBool False), (''message'', JStr ''Book not found'')]\<rparr>,
        \<lparr>books = [(''ii'', emma)], issued = 2, fault = None\<rparr>,
        [(CheckConnection, None), (FindById ''i'', None)])
   \<and> run strokes [Request \<lparr>user = Some visitor, route = CreateBook dune\<rparr>]
        \<lparr>books = [(''ii'', emma)], issued = 2, fault = None\<rparr> =
       \<lparr>books = [(''ii'', emma), (''iii'', dune)], issued = 3, fault = None\<rparr>
   \<and> books_router (Book_db strokes) \<lparr>user = Some visitor, route = GetBook ''i''\<rparr>
        \<lparr>books = [(''ii'', emma), (''iii'', dune)], issued = 3, fault = None\<rparr> =
       (Responded
          \<lparr>status = 404,
           json = [(''success'', JBool False), (''message'', JStr ''Book not found'')]\<rparr>,
        \<lparr>books = [(''ii'', emma), (''iii'', dune)], issued = 3, fault = None\<rparr>,
        [(CheckConnection, None), (FindById ''i'', None)])
   \<and> map_of (books two_books) ''iii'' = None
   \<and> books_router (Book_db strokes) \<lparr>user = Some visitor, route = DeleteBook ''iii''\<rparr> two_books =
       (Responded
          \<lparr>status = 404,
           json = [(''success'', JBool False), (''message'', JStr ''Book not found'')]\<rparr>,
        two_books, [(CheckConnection, None), (Delete ''iii'', None)])"
proof -
  let ?s' = "\<lparr>books = [(''ii'', emma)], issued = 2, fault = None\<rparr>"
  let ?evs = "[Request \<lparr>user = Some visitor, route = CreateBook dune\<rparr>]"
  have f: "fault two_books = None" and m: "map_of (books two_books) ''i'' = Some dune"
    and n: "map_of (books two_books) ''iii'' = None"
    by (simp_all add: two_books_def)
  have d: "?s' = two_books\<lparr>books := AList.delete ''i'' (books two_books)\<rparr>"
    by (simp add: two_books_def AList.delete_eq)
  have r: "run strokes ?evs ?s' =
       \<lparr>books = [(''ii'', emma), (''iii'', dune)], issued = 3, fault = None\<rparr>"
    by (simp add: run_def router_defs post_book_def model_defs strokes_def dune_def
        numeral_2_eq_2 numeral_3_eq_3)
  from delete_then_not_found [OF strokes_ok two_books_ok f m d, of visitor visitor]
  have "books_router (Book_db strokes) \<lparr>user = Some visitor, route = DeleteBook ''i''\<rparr> two_books =
       (Responded
          \<lparr>status = 200,
           json = [(''success'', JBool True), (''message'', JStr ''Book deleted successfully'')]\<rparr>,
        ?s', [(CheckConnection, None), (Delete ''i'', None)])"
    and "books_router (Book_db strokes) \<lparr>user = Some visitor, route = GetBook ''i''\<rparr> ?s' =
       (Responded
          \<lparr>status = 404,
           json = [(''success'', JBool False), (''message'', JStr ''Book not found'')]\<rparr>,
        ?s', [(CheckConnection, None), (FindById ''i'', None)])"
    and "fault (run strokes ?evs ?s') = None \<longrightarrow>
       books_router (Book_db strokes) \<lparr>user = Some visitor, route = GetBook ''i''\<rparr>
         (run strokes ?evs ?s') =
       (Responded
          \<lparr>status = 404,
           json = [(''success'', JBool False), (''message'', JStr ''Book not found'')]\<rparr>,
        run strokes ?evs ?s', [(CheckConnection, None), (FindById ''i'', None)])"
    and "map_of (books two_books) ''iii'' = None \<longrightarrow>
       books_router (Book_db strokes) \<lparr>user = Some visitor, route = DeleteBook ''iii''\<rparr> two_books =
       (Responded
          \<lparr>status = 404,
           json = [(''success'', JBool False), (''message'', JStr ''Book not found'')]\<rparr>,
        two_books, [(CheckConnection, None), (Delete ''iii'', None)])"
    by blast+
  with strokes_ok two_books_ok f m n r show ?thesis
    by simp
qed

text \<open>
  C10. The PUT /books/:id handler validates nothing: for every body, on any model and
  database layer, the status is 200, 404 or 500 and never 400, also with the connectivity
  middleware in front; and a 200 carries as data what \<open>Book.findById\<close> read back from the
  store after the update, not the body of the request.
\<close>

theorem put_book_never_400:
  "status (fst (put_book M i body s)) \<in> {200, 404, 500}
   \<and> status (fst (books_routes M (UpdateBook i body) s)) \<in> {200, 404, 500}
   \<and> (status (fst (put_book M i body s)) = 200 \<longrightarrow>
        (\<exists>res s1 reread s2.
           update M i body s = (Inr res, s1) \<and> findById M i s1 = (Inr reread, s2)
           \<and> put_book M i body s =
               (\<lparr>status = 200,
                 json = [(''success'', JBool True), (''data'', reread),
                         (''message'', JStr ''Book updated successfully'')]\<rparr>,
                s2, [(Update i body, None), (FindById i, None)])))"
  by (auto simp: books_routes_def handler_def put_book_def error_500_def not_found_404_def
      split: prod.splits sum.splits)

theorem put_book_never_400_example:
  "status (fst (put_book (Book_db strokes) ''ii'' [] two_books)) = 200
   \<and> put_book (Book_db strokes) ''ii'' [] two_books =
       (\<lparr>status = 200,
         json = [(''success'', JBool True), (''data'', JObj ((''_id'', JStr ''ii'') # emma)),
                 (''message'', JStr ''Book updated successfully'')]\<rparr>,
        two_books, [(Update ''ii'' [], None), (FindById ''ii'', None)])
   \<and> JObj ((''_id'', JStr ''ii'') # emma) \<noteq> JObj []"
proof -
  have u: "update (Book_db strokes) ''ii'' [] two_books = (Inr \<lparr>matchedCount = 1\<rparr>, two_books)"
    by (simp add: Book_update_def two_books_def emma_def AList.merge_def)
  have f: "findById (Book_db strokes) ''ii'' two_books =
             (Inr (JObj ((''_id'', JStr ''ii'') # emma)), two_books)"
    by (simp add: Book_findById_def document_or_null_def book_fields_def two_books_def strokes_def)
  have "status (fst (put_book (Book_db strokes) ''ii'' [] two_books)) = 200"
    using u f by (simp add: put_book_def)
  with put_book_never_400 [of "Book_db strokes" "''ii''" "[]" two_books] u f
  show ?thesis by auto
qed

end
